theory Spec2Isabelle
  imports Main "HOL-Library.Sublist"
begin

section \<open>Schema-to-storage compiler of packages/db/src/internal.ts\<close>

text \<open>
  A shallow embedding of \<^verbatim>\<open>packages/db/src/internal.ts\<close>: the DDL generator
  (\<^verbatim>\<open>getCreateTableQuery\<close>, \<^verbatim>\<open>getTableIndexQueries\<close>), the table-descriptor
  builder (\<^verbatim>\<open>collectionToTable\<close>, \<^verbatim>\<open>columnMapper\<close>), the write guard of
  \<^verbatim>\<open>createLocalDatabaseClient\<close> and the installer \<^verbatim>\<open>setupDbTables\<close>.

  JavaScript objects that are iterated with \<^verbatim>\<open>Object.entries\<close> are association lists
  holding the entries in the order \<^verbatim>\<open>Object.entries\<close> yields them. Optional
  properties are \<open>option\<close> values, \<open>None\<close> being \<^verbatim>\<open>undefined\<close>.
\<close>

subsection \<open>Errors\<close>

text \<open>
  Every way in which the code stops early is a value: \<open>ProcessExit\<close> is
  \<^verbatim>\<open>process.exit(code)\<close> after the given text went to \<^verbatim>\<open>console.log\<close>,
  \<open>ReadOnlyError\<close> is the \<^verbatim>\<open>Error\<close> thrown by the write guard (with its message),
  \<open>TypeError\<close> is the engine's error on reading a property of \<^verbatim>\<open>undefined\<close>,
  \<open>ZodError\<close> is a failed \<^verbatim>\<open>z.coerce.date().parse\<close>, and \<open>External\<close> is an error
  raised by a collaborator (the database client, the seed procedure).
\<close>

datatype error =
    ProcessExit nat string
  | ReadOnlyError string
  | TypeError
  | ZodError
  | External string

subsection \<open>Fields\<close>

datatype FieldType = FT_text | FT_number | FT_boolean | FT_date | FT_json

text \<open>
  A Json default is any JavaScript value; the code only hands it to
  \<^verbatim>\<open>JSON.stringify\<close>. It is represented by what that call does with it:
  \<open>Serializable s\<close> is a value whose serialization is the text \<open>s\<close>,
  \<open>Unserializable\<close> is a value on which the call throws (a cyclic structure, a BigInt),
  \<open>Omitted\<close> is a value for which the call returns \<^verbatim>\<open>undefined\<close> (a function, a
  symbol).
\<close>

datatype json_value = Serializable string | Unserializable | Omitted

datatype stringified = Text string | Undefined | Throws

fun JSON_stringify :: "json_value \<Rightarrow> stringified" where
  "JSON_stringify (Serializable s) = Text s"
| "JSON_stringify Unserializable = Throws"
| "JSON_stringify Omitted = Undefined"

text \<open>
  A Number default is a double. \<open>Integer i\<close> is the integer \<open>i\<close> of the safe range,
  from \<open>-(2\<^sup>5\<^sup>3 - 1)\<close> to \<open>2\<^sup>5\<^sup>3 - 1\<close> (both zeros are \<open>Integer 0\<close>);
  \<open>NotANumber\<close> is \<^verbatim>\<open>NaN\<close>; \<open>OtherNumber t\<close> is any other number (a fraction, an
  integer beyond the safe range, an infinity), given by the text \<open>t\<close> that a template
  literal prints for it.
\<close>

typedef safe_integer = "{i :: int. - 9007199254740991 \<le> i \<and> i \<le> 9007199254740991}"
  by (rule exI [of _ 0]) simp

datatype js_number = Integer safe_integer | NotANumber | OtherNumber string

text \<open>The attributes every field variant has.\<close>

record field_base =
  optional :: "bool option"
  unique :: "bool option"

text \<open>
  The five variants of \<^verbatim>\<open>DBField\<close>, each with its base attributes and its own
  \<^verbatim>\<open>default\<close>; only Text and Number have a \<^verbatim>\<open>primaryKey\<close> property.
\<close>

datatype DBField =
    TextField field_base "string option" "bool option"
  | NumberField field_base "js_number option" "bool option"
  | BooleanField field_base "bool option"
  | DateField field_base "string option"
  | JsonField field_base "json_value option"

fun field_type :: "DBField \<Rightarrow> FieldType" where
  "field_type (TextField b d p) = FT_text"
| "field_type (NumberField b d p) = FT_number"
| "field_type (BooleanField b d) = FT_boolean"
| "field_type (DateField b d) = FT_date"
| "field_type (JsonField b d) = FT_json"

fun base :: "DBField \<Rightarrow> field_base" where
  "base (TextField b d p) = b"
| "base (NumberField b d p) = b"
| "base (BooleanField b d) = b"
| "base (DateField b d) = b"
| "base (JsonField b d) = b"

text \<open>\<^verbatim>\<open>field.default !== undefined\<close>\<close>

fun default_defined :: "DBField \<Rightarrow> bool" where
  "default_defined (TextField b d p) = (d \<noteq> None)"
| "default_defined (NumberField b d p) = (d \<noteq> None)"
| "default_defined (BooleanField b d) = (d \<noteq> None)"
| "default_defined (DateField b d) = (d \<noteq> None)"
| "default_defined (JsonField b d) = (d \<noteq> None)"

text \<open>Truthiness of an optional boolean property: \<^verbatim>\<open>!!x\<close>.\<close>

fun truthy :: "bool option \<Rightarrow> bool" where
  "truthy None = False"
| "truthy (Some v) = v"

text \<open>\<^verbatim>\<open>'primaryKey' in field && !!field.primaryKey\<close>\<close>

fun hasPrimaryKey :: "DBField \<Rightarrow> bool" where
  "hasPrimaryKey (TextField b d p) = truthy p"
| "hasPrimaryKey (NumberField b d p) = truthy p"
| "hasPrimaryKey (BooleanField b d) = False"
| "hasPrimaryKey (DateField b d) = False"
| "hasPrimaryKey (JsonField b d) = False"

definition hasDefault :: "DBField \<Rightarrow> bool" where
  "hasDefault field =
     (if default_defined field then True
      else if hasPrimaryKey field \<and> field_type field = FT_number then True
      else False)"

subsection \<open>Text helpers\<close>

text \<open>\<^verbatim>\<open>Array.prototype.join\<close>\<close>

fun join :: "string \<Rightarrow> string list \<Rightarrow> string" where
  "join sep [] = []"
| "join sep [x] = x"
| "join sep (x # y # ys) = x @ sep @ join sep (y # ys)"

text \<open>
  The text of a number in a template literal. For a safe integer it is the decimal
  digits, most significant first, after a minus sign for a negative number.
\<close>

definition digit :: "nat \<Rightarrow> char" where
  "digit k = ''0123456789'' ! k"

fun decimal :: "nat \<Rightarrow> string \<Rightarrow> string" where
  "decimal n acc =
     (if n < 10 then digit n # acc else decimal (n div 10) (digit (n mod 10) # acc))"

declare decimal.simps [simp del]

fun number_text :: "js_number \<Rightarrow> string" where
  "number_text (Integer n) =
     (let i = Rep_safe_integer n
      in if i < 0 then CHR ''-'' # decimal (nat (- i)) [] else decimal (nat i) [])"
| "number_text NotANumber = ''NaN''"
| "number_text (OtherNumber t) = t"

text \<open>The numbers that count as false: the zeros and \<^verbatim>\<open>NaN\<close>.\<close>

fun number_falsy :: "js_number \<Rightarrow> bool" where
  "number_falsy (Integer n) = (Rep_safe_integer n = 0)"
| "number_falsy NotANumber = True"
| "number_falsy (OtherNumber t) = False"

text \<open>
  The SQLite dialect object \<^verbatim>\<open>sqlite\<close> comes from the ORM library: its
  \<^verbatim>\<open>escapeName\<close> wraps a name in double quotes, its \<^verbatim>\<open>escapeString\<close> wraps a text
  in single quotes and doubles every single quote inside.
\<close>

definition escapeName :: "string \<Rightarrow> string" where
  "escapeName name = [CHR 0x22] @ name @ [CHR 0x22]"

definition escapeString :: "string \<Rightarrow> string" where
  "escapeString str =
     [CHR 0x27] @ concat (map (\<lambda>c. if c = CHR 0x27 then [CHR 0x27, CHR 0x27] else [c]) str) @ [CHR 0x27]"

text \<open>\<^verbatim>\<open>bold\<close> only adds terminal styling; the styling codes are left out.\<close>

definition bold :: "string \<Rightarrow> string" where
  "bold s = s"

subsection \<open>DDL generator\<close>

fun schemaTypeToSqlType :: "FieldType \<Rightarrow> string" where
  "schemaTypeToSqlType FT_date = ''text''"
| "schemaTypeToSqlType FT_text = ''text''"
| "schemaTypeToSqlType FT_json = ''text''"
| "schemaTypeToSqlType FT_number = ''integer''"
| "schemaTypeToSqlType FT_boolean = ''integer''"

text \<open>The text that \<^verbatim>\<open>getDefaultValueSql\<close> logs before it ends the process.\<close>

definition invalidDefaultMessage :: "string \<Rightarrow> string" where
  "invalidDefaultMessage columnName =
     ''Invalid default value for column '' @ bold columnName
       @ ''. Defaults must be valid JSON when using the `json()` type.''"

text \<open>
  \<^verbatim>\<open>getDefaultValueSql\<close>. A default that is \<^verbatim>\<open>undefined\<close> reaches the Text, Date
  and Json branches only if the caller ignores \<^verbatim>\<open>hasDefault\<close>; the escaping then
  reads a property of \<^verbatim>\<open>undefined\<close>, as it does when \<^verbatim>\<open>JSON.stringify\<close> returns
  \<^verbatim>\<open>undefined\<close>. In the Number branch \<^verbatim>\<open>column.default || 'AUTOINCREMENT'\<close> takes
  the right operand for \<^verbatim>\<open>undefined\<close>, for \<open>0\<close> and for \<^verbatim>\<open>NaN\<close>.
\<close>

fun getDefaultValueSql :: "string \<Rightarrow> DBField \<Rightarrow> error + string" where
  "getDefaultValueSql columnName (BooleanField b d) =
     Inr (if truthy d then ''TRUE'' else ''FALSE'')"
| "getDefaultValueSql columnName (NumberField b d p) =
     Inr (case d of None \<Rightarrow> ''AUTOINCREMENT''
          | Some n \<Rightarrow> if number_falsy n then ''AUTOINCREMENT'' else number_text n)"
| "getDefaultValueSql columnName (TextField b d p) =
     (case d of None \<Rightarrow> Inl TypeError | Some s \<Rightarrow> Inr (escapeString s))"
| "getDefaultValueSql columnName (DateField b d) =
     (case d of None \<Rightarrow> Inl TypeError
      | Some s \<Rightarrow> Inr (if s = ''now'' then ''CURRENT_TIMESTAMP'' else escapeString s))"
| "getDefaultValueSql columnName (JsonField b d) =
     (case d of None \<Rightarrow> Inl TypeError
      | Some v \<Rightarrow>
          (case JSON_stringify v of
             Throws \<Rightarrow> Inl (ProcessExit 0 (invalidDefaultMessage columnName))
           | Undefined \<Rightarrow> Inl TypeError
           | Text stringified \<Rightarrow> Inr (escapeString stringified)))"

definition getModifiers :: "string \<Rightarrow> DBField \<Rightarrow> error + string" where
  "getModifiers fieldName field =
     (if hasPrimaryKey field then Inr '' PRIMARY KEY''
      else
        let modifiers = (if \<not> truthy (optional (base field)) then '' NOT NULL'' else '''');
            modifiers = modifiers @ (if truthy (unique (base field)) then '' UNIQUE'' else '''')
        in if hasDefault field
           then (case getDefaultValueSql fieldName field of
                   Inl e \<Rightarrow> Inl e
                 | Inr v \<Rightarrow> Inr (modifiers @ '' DEFAULT '' @ v))
           else Inr modifiers)"

subsection \<open>Collections\<close>

text \<open>\<^verbatim>\<open>on\<close> of an index is one column name or an array of them.\<close>

datatype index_on = OnName string | OnNames "string list"

record index_props =
  on :: index_on
  idx_unique :: "bool option"

text \<open>
  A collection: its fields and indexes in \<^verbatim>\<open>Object.entries\<close> order, the writable
  flag, and whether the \<^verbatim>\<open>_setMeta\<close> hook is present.
\<close>

record DBCollection =
  coll_fields :: "(string \<times> DBField) list"
  indexes :: "(string \<times> index_props) list option"
  writable :: bool
  has_setMeta :: bool

type_synonym DBCollections = "(string \<times> DBCollection) list"

text \<open>\<^verbatim>\<open>sql.raw(text)\<close>\<close>

datatype SQL = sql_raw string

text \<open>The column clauses of the declared fields, stopping at the first failure.\<close>

fun colQueries_of :: "(string \<times> DBField) list \<Rightarrow> error + string list" where
  "colQueries_of [] = Inr []"
| "colQueries_of ((columnName, column) # rest) =
     (case getModifiers columnName column of
        Inl e \<Rightarrow> Inl e
      | Inr m \<Rightarrow>
          (case colQueries_of rest of
             Inl e \<Rightarrow> Inl e
           | Inr qs \<Rightarrow>
               Inr ((escapeName columnName @ '' '' @ schemaTypeToSqlType (field_type column) @ m) # qs)))"

definition getCreateTableQuery :: "string \<Rightarrow> DBCollection \<Rightarrow> error + string" where
  "getCreateTableQuery collectionName collection =
     (let query = ''CREATE TABLE '' @ escapeName collectionName @ '' ('';
          colHasPrimaryKey = find (\<lambda>(n, field). hasPrimaryKey field) (coll_fields collection);
          colQueries = (if colHasPrimaryKey = None then [''_id INTEGER PRIMARY KEY''] else [])
      in case colQueries_of (coll_fields collection) of
           Inl e \<Rightarrow> Inl e
         | Inr qs \<Rightarrow> Inr (query @ join '', '' (colQueries @ qs) @ '')''))"

text \<open>\<^verbatim>\<open>Array.isArray(indexProps.on) ? indexProps.on : [indexProps.on]\<close>\<close>

fun onColNames :: "index_on \<Rightarrow> string list" where
  "onColNames (OnNames ns) = ns"
| "onColNames (OnName n) = [n]"

definition indexQuery :: "string \<Rightarrow> string \<Rightarrow> index_props \<Rightarrow> SQL" where
  "indexQuery collectionName indexName indexProps =
     (let onCols = map escapeName (onColNames (on indexProps));
          uniq = (if truthy (idx_unique indexProps) then ''UNIQUE '' else '''')
      in sql_raw (''CREATE '' @ uniq @ ''INDEX '' @ escapeName indexName @ '' ON ''
                   @ escapeName collectionName @ '' ('' @ join '', '' onCols @ '')''))"

text \<open>\<^verbatim>\<open>collection.indexes ?? {}\<close>\<close>

definition indexes_or_empty :: "DBCollection \<Rightarrow> (string \<times> index_props) list" where
  "indexes_or_empty collection = (case indexes collection of None \<Rightarrow> [] | Some ixs \<Rightarrow> ixs)"

definition getTableIndexQueries :: "string \<Rightarrow> DBCollection \<Rightarrow> SQL list" where
  "getTableIndexQueries collectionName collection =
     map (\<lambda>(indexName, indexProps). indexQuery collectionName indexName indexProps)
       (indexes_or_empty collection)"

subsection \<open>Table-descriptor builder\<close>

text \<open>
  A column builder of the ORM library is represented by the calls made on it:
  the constructor that made it (\<open>col_kind\<close>), the argument of \<^verbatim>\<open>.default(...)\<close> if
  it was called, and whether \<^verbatim>\<open>.primaryKey()\<close> (with or without
  \<^verbatim>\<open>autoIncrement\<close>), \<^verbatim>\<open>.notNull()\<close> and \<^verbatim>\<open>.unique()\<close> were called.
  \<open>'d\<close> is the type of date values.
\<close>

datatype column_kind = text_col | integer_col | integer_boolean_col | jsonType_col | dateType_col

datatype 'd default_arg =
    DefaultText string
  | DefaultNumber js_number
  | DefaultBoolean bool
  | DefaultJson json_value
  | DefaultSql string
  | DefaultDate 'd

record 'd column =
  col_name :: string
  col_kind :: column_kind
  col_default :: "'d default_arg option"
  col_primaryKey :: bool
  col_autoIncrement :: bool
  col_notNull :: bool
  col_unique :: bool

definition new_column :: "column_kind \<Rightarrow> string \<Rightarrow> 'd column" where
  "new_column k name =
     \<lparr> col_name = name, col_kind = k, col_default = None, col_primaryKey = False,
       col_autoIncrement = False, col_notNull = False, col_unique = False \<rparr>"

text \<open>\<^verbatim>\<open>if (field.default !== undefined) c = c.default(...)\<close>\<close>

fun with_default :: "'a option \<Rightarrow> ('a \<Rightarrow> 'd default_arg) \<Rightarrow> 'd column \<Rightarrow> 'd column" where
  "with_default None mk c = c"
| "with_default (Some v) mk c = c\<lparr>col_default := Some (mk v)\<rparr>"

text \<open>\<^verbatim>\<open>if (!field.optional) c = c.notNull(); if (field.unique) c = c.unique()\<close>\<close>

definition finish_column :: "field_base \<Rightarrow> 'd column \<Rightarrow> 'd column" where
  "finish_column b c =
     (let c = (if \<not> truthy (optional b) then c\<lparr>col_notNull := True\<rparr> else c)
      in if truthy (unique b) then c\<lparr>col_unique := True\<rparr> else c)"

text \<open>
  \<^verbatim>\<open>columnMapper\<close>. \<open>coerce_date\<close> is \<^verbatim>\<open>z.coerce.date().parse\<close>, which fails on a
  text that is no date; it is only called for a Date default other than \<^verbatim>\<open>'now'\<close>
  when \<open>isJsonSerializable\<close> is false.
\<close>

fun columnMapper ::
  "(string \<Rightarrow> 'd option) \<Rightarrow> string \<Rightarrow> DBField \<Rightarrow> bool \<Rightarrow> error + 'd column" where
  "columnMapper coerce_date fieldName (TextField b d p) isJsonSerializable =
     (let c = new_column text_col fieldName;
          c = with_default d DefaultText c;
          c = (if p = Some True then c\<lparr>col_primaryKey := True\<rparr> else c)
      in Inr (finish_column b c))"
| "columnMapper coerce_date fieldName (NumberField b d p) isJsonSerializable =
     (let c = new_column integer_col fieldName;
          c = with_default d DefaultNumber c;
          c = (if p = Some True then c\<lparr>col_primaryKey := True, col_autoIncrement := True\<rparr> else c)
      in Inr (finish_column b c))"
| "columnMapper coerce_date fieldName (BooleanField b d) isJsonSerializable =
     Inr (finish_column b (with_default d DefaultBoolean (new_column integer_boolean_col fieldName)))"
| "columnMapper coerce_date fieldName (JsonField b d) isJsonSerializable =
     Inr (finish_column b (with_default d DefaultJson (new_column jsonType_col fieldName)))"
| "columnMapper coerce_date fieldName (DateField b d) isJsonSerializable =
     (if isJsonSerializable then
        Inr (finish_column b
          (with_default d (\<lambda>s. if s = ''now'' then DefaultSql ''CURRENT_TIMESTAMP'' else DefaultText s)
             (new_column text_col fieldName)))
      else
        (case d of
           None \<Rightarrow> Inr (finish_column b (new_column dateType_col fieldName))
         | Some s \<Rightarrow>
             if s = ''now''
             then Inr (finish_column b
                    ((new_column dateType_col fieldName)\<lparr>col_default := Some (DefaultSql ''CURRENT_TIMESTAMP'')\<rparr>))
             else (case coerce_date s of
                     None \<Rightarrow> Inl ZodError
                   | Some v \<Rightarrow>
                       Inr (finish_column b
                         ((new_column dateType_col fieldName)\<lparr>col_default := Some (DefaultDate v)\<rparr>)))))"

text \<open>
  The keys of an object are listed with the array indexes first, in ascending order,
  and the other keys after them in the order in which they were added. An array index
  is the decimal text, without leading zeros, of a number below \<open>2\<^sup>3\<^sup>2 - 1\<close>.
\<close>

definition digits_value :: "string \<Rightarrow> nat" where
  "digits_value s = foldl (\<lambda>a c. 10 * a + (of_char c - 48)) 0 s"

definition is_array_index :: "string \<Rightarrow> bool" where
  "is_array_index s =
     (s \<noteq> [] \<and> list_all (\<lambda>c. c \<in> set ''0123456789'') s
      \<and> (s = ''0'' \<or> hd s \<noteq> CHR ''0'') \<and> digits_value s < 4294967295)"

fun replace_value :: "(string \<times> 'a) list \<Rightarrow> string \<Rightarrow> 'a \<Rightarrow> (string \<times> 'a) list" where
  "replace_value [] k v = []"
| "replace_value ((k', v') # rest) k v =
     (if k' = k then (k, v) # rest else (k', v') # replace_value rest k v)"

fun insert_index :: "(string \<times> 'a) list \<Rightarrow> string \<Rightarrow> 'a \<Rightarrow> (string \<times> 'a) list" where
  "insert_index [] k v = [(k, v)]"
| "insert_index ((k', v') # rest) k v =
     (if is_array_index k' \<and> digits_value k' < digits_value k
      then (k', v') # insert_index rest k v
      else (k, v) # (k', v') # rest)"

text \<open>
  \<^verbatim>\<open>record[key] = value\<close>: an existing key keeps its place; a new key that is an array
  index goes among the array indexes, any other new key goes last.
\<close>

definition assign :: "(string \<times> 'a) list \<Rightarrow> string \<Rightarrow> 'a \<Rightarrow> (string \<times> 'a) list" where
  "assign xs k v =
     (if k \<in> set (map fst xs) then replace_value xs k v
      else if is_array_index k then insert_index xs k v
      else xs @ [(k, v)])"

text \<open>The loop over the fields that fills \<^verbatim>\<open>columns\<close>.\<close>

fun mapColumns ::
  "(string \<Rightarrow> 'd option) \<Rightarrow> bool \<Rightarrow> (string \<times> DBField) list \<Rightarrow> (string \<times> 'd column) list
     \<Rightarrow> error + (string \<times> 'd column) list" where
  "mapColumns coerce_date js [] columns = Inr columns"
| "mapColumns coerce_date js ((fieldName, field) # rest) columns =
     (case columnMapper coerce_date fieldName field js of
        Inl e \<Rightarrow> Inl e
      | Inr c \<Rightarrow> mapColumns coerce_date js rest (assign columns fieldName c))"

text \<open>An index builder: \<^verbatim>\<open>index(indexName).on(...onCols)\<close>; a column that the
  table does not have is \<^verbatim>\<open>undefined\<close>.\<close>

record 'd index_builder =
  ib_name :: string
  ib_columns :: "'d column option list"

definition atLeastOne :: "'a list \<Rightarrow> bool" where
  "atLeastOne arr = (length arr > 0)"

text \<open>The callback given to \<^verbatim>\<open>sqliteTable\<close>.\<close>

fun buildIndexes ::
  "(string \<times> 'd column) list \<Rightarrow> (string \<times> index_props) list \<Rightarrow> (string \<times> 'd index_builder) list
     \<Rightarrow> (string \<times> 'd index_builder) list" where
  "buildIndexes ormTable [] ixs = ixs"
| "buildIndexes ormTable ((indexName, indexProps) # rest) ixs =
     (let onCols = map (map_of ormTable) (onColNames (on indexProps))
      in if \<not> atLeastOne onCols then buildIndexes ormTable rest ixs
         else buildIndexes ormTable rest
                (assign ixs indexName \<lparr> ib_name = indexName, ib_columns = onCols \<rparr>))"

record 'd table =
  table_name :: string
  table_columns :: "(string \<times> 'd column) list"
  table_indexes :: "(string \<times> 'd index_builder) list"

definition collectionToTable ::
  "(string \<Rightarrow> 'd option) \<Rightarrow> string \<Rightarrow> DBCollection \<Rightarrow> bool \<Rightarrow> error + 'd table" where
  "collectionToTable coerce_date name collection isJsonSerializable =
     (let columns =
            (if \<not> list_ex (\<lambda>(n, field). hasPrimaryKey field) (coll_fields collection)
             then [(''_id'', (new_column integer_col ''_id'')\<lparr>col_primaryKey := True\<rparr>)]
             else [])
      in case mapColumns coerce_date isJsonSerializable (coll_fields collection) columns of
           Inl e \<Rightarrow> Inl e
         | Inr columns \<Rightarrow>
             Inr \<lparr> table_name = name, table_columns = columns,
                   table_indexes = buildIndexes columns (indexes_or_empty collection) [] \<rparr>)"

definition getTableName :: "'d table \<Rightarrow> string" where
  "getTableName t = table_name t"

subsection \<open>Write guard\<close>

text \<open>
  The collection map is a plain object, so \<^verbatim>\<open>collections[tableName]\<close> is the entry of
  that name if the map has one; otherwise, for a property name of
  \<^verbatim>\<open>Object.prototype\<close>, the value inherited from there (a function, or the prototype
  itself for \<^verbatim>\<open>__proto__\<close>); otherwise \<^verbatim>\<open>undefined\<close>.
\<close>

definition object_prototype_names :: "string list" where
  "object_prototype_names =
     [''constructor'', ''__defineGetter__'', ''__defineSetter__'', ''hasOwnProperty'',
      ''__lookupGetter__'', ''__lookupSetter__'', ''isPrototypeOf'', ''propertyIsEnumerable'',
      ''toString'', ''valueOf'', ''__proto__'', ''toLocaleString'']"

datatype 'a property = OwnProperty 'a | InheritedProperty | NoProperty

definition lookup_collection :: "DBCollections \<Rightarrow> string \<Rightarrow> DBCollection property" where
  "lookup_collection collections tableName =
     (case map_of collections tableName of
        Some collection \<Rightarrow> OwnProperty collection
      | None \<Rightarrow>
          if tableName \<in> set object_prototype_names then InheritedProperty else NoProperty)"

text \<open>
  Reading \<^verbatim>\<open>writable\<close> of \<^verbatim>\<open>undefined\<close> is a \<^verbatim>\<open>TypeError\<close>; an inherited value has
  no \<^verbatim>\<open>writable\<close> property, so that \<^verbatim>\<open>!collection.writable\<close> holds for it.
\<close>

definition checkIfModificationIsAllowed :: "DBCollections \<Rightarrow> 'd table \<Rightarrow> error + unit" where
  "checkIfModificationIsAllowed collections T =
     (let tableName = getTableName T
      in case lookup_collection collections tableName of
           NoProperty \<Rightarrow> Inl TypeError
         | InheritedProperty \<Rightarrow>
             Inl (ReadOnlyError (''The ['' @ tableName @ ''] collection is read-only.''))
         | OwnProperty collection \<Rightarrow>
             if \<not> writable collection
             then Inl (ReadOnlyError (''The ['' @ tableName @ ''] collection is read-only.''))
             else Inr ())"

text \<open>
  The database handle: its three mutation entry points and a read entry point. Each
  takes the table and the state \<open>'s\<close> of the underlying client, and gives a result
  \<open>'r\<close> or an error together with the client's next state.
\<close>

type_synonym ('d, 's, 'r) entry = "'d table \<Rightarrow> 's \<Rightarrow> (error + 'r) \<times> 's"

record ('d, 's, 'r) database =
  db_insert :: "('d, 's, 'r) entry"
  db_update :: "('d, 's, 'r) entry"
  db_delete :: "('d, 's, 'r) entry"
  db_select :: "('d, 's, 'r) entry"

definition guarded :: "DBCollections \<Rightarrow> ('d, 's, 'r) entry \<Rightarrow> ('d, 's, 'r) entry" where
  "guarded collections drizzleOp T s =
     (case checkIfModificationIsAllowed collections T of
        Inl e \<Rightarrow> (Inl e, s)
      | Inr u \<Rightarrow> drizzleOp T s)"

text \<open>\<^verbatim>\<open>createLocalDatabaseClient\<close>; \<open>db\<close> is \<^verbatim>\<open>drizzle(createClient({ url: dbUrl }))\<close>.\<close>

definition createLocalDatabaseClient ::
  "DBCollections \<Rightarrow> ('d, 's, 'r) database \<Rightarrow> bool \<Rightarrow> ('d, 's, 'r) database" where
  "createLocalDatabaseClient collections db seeding =
     (if seeding then db
      else
        let drizzleInsert = db_insert db; drizzleUpdate = db_update db; drizzleDelete = db_delete db
        in db\<lparr> db_insert := guarded collections drizzleInsert,
               db_update := guarded collections drizzleUpdate,
               db_delete := guarded collections drizzleDelete \<rparr>)"

subsection \<open>Schema installer and seeder\<close>

text \<open>
  The client given to \<^verbatim>\<open>setupDbTables\<close>: \<^verbatim>\<open>db.run(q)\<close> and the two insert chains
  the \<^verbatim>\<open>seed\<close> helper uses, \<^verbatim>\<open>db.insert(table).values(values).returning()\<close> and the
  same followed by \<^verbatim>\<open>.get()\<close>. \<open>'s\<close> is the state of the database, \<open>'row\<close> the type
  of rows.
\<close>

record ('d, 's, 'row) remote_database =
  run :: "SQL \<Rightarrow> 's \<Rightarrow> error option \<times> 's"
  insert_returning :: "'d table \<Rightarrow> 'row list \<Rightarrow> 's \<Rightarrow> (error + 'row list) \<times> 's"
  insert_returning_get :: "'d table \<Rightarrow> 'row \<Rightarrow> 's \<Rightarrow> (error + 'row) \<times> 's"

datatype 'row seed_values = ValuesArray "'row list" | ValuesSingle 'row

text \<open>The \<^verbatim>\<open>seed\<close> helper handed to the seed procedure.\<close>

fun seed ::
  "('d, 's, 'row) remote_database \<Rightarrow> 'd table \<Rightarrow> 'row seed_values \<Rightarrow> 's
     \<Rightarrow> (error + 'row seed_values) \<times> 's" where
  "seed db t (ValuesArray vs) s =
     (case insert_returning db t vs s of
        (Inl e, s') \<Rightarrow> (Inl e, s')
      | (Inr rows, s') \<Rightarrow> (Inr (ValuesArray rows), s'))"
| "seed db t (ValuesSingle v) s =
     (case insert_returning_get db t v s of
        (Inl e, s') \<Rightarrow> (Inl e, s')
      | (Inr row, s') \<Rightarrow> (Inr (ValuesSingle row), s'))"

datatype mode = dev | build

text \<open>
  What the seed procedure raised, seen through the conversion to text \<^verbatim>\<open>${e}\<close> in
  the handler: \<open>Printable t\<close> is a value whose text is \<open>t\<close> (an \<^verbatim>\<open>Error\<close> object, a
  string); \<open>Unprintable err\<close> is a value whose conversion raises \<open>err\<close> (a Symbol, for
  which it is a \<^verbatim>\<open>TypeError\<close>; an object whose \<^verbatim>\<open>toString\<close> raises).
\<close>

datatype thrown = Printable string | Unprintable error

text \<open>
  The user's seed procedure \<^verbatim>\<open>data({ seed, db, mode })\<close>: from the state of the
  database it gives the next state and, when it raises, what it raised.
\<close>

type_synonym ('d, 's, 'row) seed_procedure =
  "('d table \<Rightarrow> 'row seed_values \<Rightarrow> 's \<Rightarrow> (error + 'row seed_values) \<times> 's)
     \<Rightarrow> ('d, 's, 'row) remote_database \<Rightarrow> mode \<Rightarrow> 's \<Rightarrow> thrown option \<times> 's"

text \<open>
  What a setup run does that can be seen from outside, in order: a statement given to
  \<^verbatim>\<open>db.run\<close>, a table given to a collection's \<^verbatim>\<open>_setMeta\<close>, the call of the seed
  procedure, a text given to \<^verbatim>\<open>logger.error\<close> (\<open>True\<close>) or \<^verbatim>\<open>console.error\<close>
  (\<open>False\<close>).
\<close>

datatype 'd event =
    DbRun SQL
  | SetMeta string "'d table"
  | SeedCalled mode
  | ErrorLogged bool string

definition dropQuery :: "string \<Rightarrow> SQL" where
  "dropQuery name = sql_raw (''DROP TABLE IF EXISTS '' @ name)"

text \<open>The first loop: \<^verbatim>\<open>setupQueries\<close>, or the first failure of the text generation.\<close>

fun buildSetupQueries :: "DBCollections \<Rightarrow> error + SQL list" where
  "buildSetupQueries [] = Inr []"
| "buildSetupQueries ((name, collection) # rest) =
     (case getCreateTableQuery name collection of
        Inl e \<Rightarrow> Inl e
      | Inr createText \<Rightarrow>
          (case buildSetupQueries rest of
             Inl e \<Rightarrow> Inl e
           | Inr qs \<Rightarrow>
               Inr ([dropQuery name, sql_raw createText] @ getTableIndexQueries name collection @ qs)))"

text \<open>The second loop: \<^verbatim>\<open>await db.run(q)\<close> for each statement, stopping at a rejection.\<close>

fun runQueries ::
  "('d, 's, 'row) remote_database \<Rightarrow> SQL list \<Rightarrow> 's \<Rightarrow> error option \<times> 'd event list \<times> 's" where
  "runQueries db [] s = (None, [], s)"
| "runQueries db (q # qs) s =
     (case run db q s of
        (Some e, s') \<Rightarrow> (Some e, [DbRun q], s')
      | (None, s') \<Rightarrow>
          (case runQueries db qs s' of (r, evs, s'') \<Rightarrow> (r, DbRun q # evs, s'')))"

text \<open>
  The loop that builds a table for each collection and hands it to \<^verbatim>\<open>_setMeta\<close>
  where the collection has one. \<^verbatim>\<open>collectionToTable(name, collection)\<close> is called
  without its third argument, whose default is \<^verbatim>\<open>true\<close>.
\<close>

fun attachTables :: "(string \<Rightarrow> 'd option) \<Rightarrow> DBCollections \<Rightarrow> error option \<times> 'd event list" where
  "attachTables coerce_date [] = (None, [])"
| "attachTables coerce_date ((name, collection) # rest) =
     (case collectionToTable coerce_date name collection True of
        Inl e \<Rightarrow> (Some e, [])
      | Inr t \<Rightarrow>
          (case attachTables coerce_date rest of
             (r, evs) \<Rightarrow> (r, (if has_setMeta collection then [SetMeta name t] else []) @ evs)))"

definition seedFailureMessage :: "string \<Rightarrow> string" where
  "seedFailureMessage e =
     ''Failed to seed data. Did you update to match recent schema changes? Full error:''
       @ [CHR 0x0A, CHR 0x0A] @ e"

text \<open>
  \<^verbatim>\<open>setupDbTables\<close>: the result is \<open>None\<close> when the call returns normally and the
  error otherwise, with the events of the run and the last state of the database.
  \<open>logger\<close> says whether a logger was given. When the conversion of what the seed
  procedure raised to text raises, the handler raises that error and nothing is logged.
\<close>

definition setupDbTables ::
  "(string \<Rightarrow> 'd option) \<Rightarrow> ('d, 's, 'row) remote_database \<Rightarrow> ('d, 's, 'row) seed_procedure option
     \<Rightarrow> DBCollections \<Rightarrow> bool \<Rightarrow> mode \<Rightarrow> 's \<Rightarrow> error option \<times> 'd event list \<times> 's" where
  "setupDbTables coerce_date db data collections logger m s =
     (case buildSetupQueries collections of
        Inl e \<Rightarrow> (Some e, [], s)
      | Inr setupQueries \<Rightarrow>
          (case runQueries db setupQueries s of
             (Some e, evs, s1) \<Rightarrow> (Some e, evs, s1)
           | (None, evs, s1) \<Rightarrow>
               (case data of
                  None \<Rightarrow> (None, evs, s1)
                | Some procedure \<Rightarrow>
                    (case attachTables coerce_date collections of
                       (Some e, metaEvs) \<Rightarrow> (Some e, evs @ metaEvs, s1)
                     | (None, metaEvs) \<Rightarrow>
                         (case procedure (seed db) db m s1 of
                            (None, s2) \<Rightarrow> (None, evs @ metaEvs @ [SeedCalled m], s2)
                          | (Some (Printable e), s2) \<Rightarrow>
                              (None,
                               evs @ metaEvs @ [SeedCalled m, ErrorLogged logger (seedFailureMessage e)],
                               s2)
                          | (Some (Unprintable err), s2) \<Rightarrow>
                              (Some err, evs @ metaEvs @ [SeedCalled m], s2))))))"

subsection \<open>Notions used in the statements\<close>

text \<open>The statements given to \<^verbatim>\<open>db.run\<close> in a run, in order.\<close>

fun executed :: "'d event list \<Rightarrow> SQL list" where
  "executed [] = []"
| "executed (DbRun q # evs) = q # executed evs"
| "executed (SetMeta n t # evs) = executed evs"
| "executed (SeedCalled m # evs) = executed evs"
| "executed (ErrorLogged l e # evs) = executed evs"

text \<open>The text of a collection's create-table statement, where its generation succeeds.\<close>

definition createText :: "string \<Rightarrow> DBCollection \<Rightarrow> string" where
  "createText name collection =
     (case getCreateTableQuery name collection of Inl e \<Rightarrow> [] | Inr t \<Rightarrow> t)"

text \<open>What one pass of the first loop of \<^verbatim>\<open>setupDbTables\<close> pushes.\<close>

definition collectionQueries :: "string \<Rightarrow> DBCollection \<Rightarrow> SQL list" where
  "collectionQueries name collection =
     [dropQuery name, sql_raw (createText name collection)] @ getTableIndexQueries name collection"

fun is_create_table :: "SQL \<Rightarrow> bool" where
  "is_create_table (sql_raw t) = prefix ''CREATE TABLE '' t"

fun is_create_index :: "SQL \<Rightarrow> bool" where
  "is_create_index (sql_raw t) = (prefix ''CREATE INDEX '' t \<or> prefix ''CREATE UNIQUE INDEX '' t)"

text \<open>Some index statement of the list comes before some create-table statement.\<close>

fun index_before_create :: "SQL list \<Rightarrow> bool" where
  "index_before_create [] = False"
| "index_before_create (q # qs) =
     ((is_create_index q \<and> list_ex is_create_table qs) \<or> index_before_create qs)"




text \<open>No column of the list was made by \<^verbatim>\<open>dateType\<close>.\<close>

definition no_date_typed :: "(string \<times> 'd column) list \<Rightarrow> bool" where
  "no_date_typed columns = list_all (\<lambda>(n, c). col_kind c \<noteq> dateType_col) columns"

text \<open>
  The \<^verbatim>\<open>_setMeta\<close> calls of a run that gets as far as the seed procedure: for each
  collection that has the hook, the table built with \<open>isJsonSerializable\<close> true.
\<close>

fun metaEvents :: "(string \<Rightarrow> 'd option) \<Rightarrow> DBCollections \<Rightarrow> 'd event list" where
  "metaEvents coerce_date [] = []"
| "metaEvents coerce_date ((name, collection) # rest) =
     (case collectionToTable coerce_date name collection True of
        Inl e \<Rightarrow> []
      | Inr t \<Rightarrow> (if has_setMeta collection then [SetMeta name t] else []))
     @ metaEvents coerce_date rest"

subsection \<open>Example inputs\<close>

text \<open>
  The collection \<^verbatim>\<open>{fields: {title: Text(optional:false), views: Number(default:d)}}\<close>.
\<close>

definition posts :: "js_number \<Rightarrow> DBCollection" where
  "posts d =
     \<lparr> coll_fields =
         [(''title'', TextField \<lparr>optional = Some False, unique = None\<rparr> None None),
          (''views'', NumberField \<lparr>optional = None, unique = None\<rparr> (Some d) None)],
       indexes = None, writable = True, has_setMeta = True \<rparr>"

text \<open>A Text field that is the primary key and has a default.\<close>

definition pk_text :: DBField where
  "pk_text = TextField \<lparr>optional = None, unique = None\<rparr> (Some ''x'') (Some True)"

text \<open>An optional Number field with the default 5.\<close>

definition views_field :: DBField where
  "views_field =
     NumberField \<lparr>optional = Some True, unique = None\<rparr> (Some (Integer (Abs_safe_integer 5))) None"

text \<open>
  A database handle for the examples: every entry point that reaches the underlying
  client adds one to the state, which counts the calls.
\<close>

definition counting_db :: "(unit, nat, string) database" where
  "counting_db =
     \<lparr> db_insert = (\<lambda>T s. (Inr ''inserted'', Suc s)),
       db_update = (\<lambda>T s. (Inr ''updated'', Suc s)),
       db_delete = (\<lambda>T s. (Inr ''deleted'', Suc s)),
       db_select = (\<lambda>T s. (Inr ''selected'', Suc s)) \<rparr>"

definition table_named :: "string \<Rightarrow> unit table" where
  "table_named n = \<lparr> table_name = n, table_columns = [], table_indexes = [] \<rparr>"

text \<open>A writable collection \<^verbatim>\<open>posts\<close> and a read-only collection \<^verbatim>\<open>authors\<close>.\<close>

definition guarded_collections :: DBCollections where
  "guarded_collections =
     [(''posts'', \<lparr> coll_fields = [], indexes = None, writable = True, has_setMeta = False \<rparr>),
      (''authors'', \<lparr> coll_fields = [], indexes = None, writable = False, has_setMeta = False \<rparr>)]"

text \<open>
  A client for the examples that accepts every statement; its state is the list of the
  statements it was given. Its insert chains return the rows they are given.
\<close>

definition accepting_db :: "(unit, SQL list, unit) remote_database" where
  "accepting_db =
     \<lparr> run = (\<lambda>q s. (None, s @ [q])),
       insert_returning = (\<lambda>t vs s. (Inr vs, s)),
       insert_returning_get = (\<lambda>t v s. (Inr v, s)) \<rparr>"

text \<open>Two collections, the first of them with an index.\<close>

definition two_collections :: DBCollections where
  "two_collections =
     [(''a'', \<lparr> coll_fields = [(''x'', TextField \<lparr>optional = Some True, unique = None\<rparr> None None)],
              indexes = Some [(''idx'', \<lparr> on = OnName ''x'', idx_unique = None \<rparr>)],
              writable = True, has_setMeta = False \<rparr>),
      (''b'', \<lparr> coll_fields = [(''y'', TextField \<lparr>optional = Some True, unique = None\<rparr> None None)],
              indexes = None, writable = True, has_setMeta = False \<rparr>)]"



text \<open>A collection with one Date field and the \<^verbatim>\<open>_setMeta\<close> hook.\<close>

definition events_collection :: DBCollection where
  "events_collection =
     \<lparr> coll_fields = [(''at'', DateField \<lparr>optional = Some True, unique = None\<rparr> None)],
       indexes = None, writable = True, has_setMeta = True \<rparr>"

text \<open>The table of that collection, with the kind of the column of its Date field left open.\<close>

definition events_table :: "column_kind \<Rightarrow> unit table" where
  "events_table k =
     \<lparr> table_name = ''events'',
       table_columns =
         [(''_id'', \<lparr> col_name = ''_id'', col_kind = integer_col, col_default = None,
                      col_primaryKey = True, col_autoIncrement = False, col_notNull = False,
                      col_unique = False \<rparr>),
          (''at'', \<lparr> col_name = ''at'', col_kind = k, col_default = None,
                     col_primaryKey = False, col_autoIncrement = False, col_notNull = False,
                     col_unique = False \<rparr>)],
       table_indexes = [] \<rparr>"



definition quiet_seed :: "(unit, SQL list, unit) seed_procedure" where
  "quiet_seed sd db m s = (None, s)"

text \<open>A collection whose table, field and index names contain a space.\<close>

definition spaced_collections :: DBCollections where
  "spaced_collections =
     [(''my posts'',
       \<lparr> coll_fields = [(''the title'', TextField \<lparr>optional = Some True, unique = None\<rparr> None (Some True))],
         indexes = Some [(''by title'', \<lparr> on = OnNames [''the title''], idx_unique = Some True \<rparr>)],
         writable = True, has_setMeta = False \<rparr>)]"

text \<open>A collection without fields.\<close>

definition empty_collection :: DBCollection where
  "empty_collection = \<lparr> coll_fields = [], indexes = None, writable = True, has_setMeta = False \<rparr>"



section \<open>Properties\<close>

subsection \<open>Default presence in the two builders\<close>

lemma finish_column_default [simp]: "col_default (finish_column b c) = col_default c"
  by (simp add: finish_column_def Let_def)

lemma with_default_default [simp]:
  "col_default (with_default d mk c) = (case d of None \<Rightarrow> col_default c | Some v \<Rightarrow> Some (mk v))"
  by (cases d) simp_all

lemma new_column_default [simp]: "col_default (new_column k n) = None"
  by (simp add: new_column_def)

lemma columnMapper_default:
  "columnMapper coerce_date fieldName field js = Inr c \<Longrightarrow>
     (col_default c \<noteq> None) = default_defined field"
  by (cases field) (auto simp: Let_def split: if_splits option.splits)

lemma plain_modifiers_no_default:
  "\<not> sublist '' DEFAULT '' ((if nn then '' NOT NULL'' else '''') @ (if u then '' UNIQUE'' else ''''))"
  by (cases nn; cases u) (simp_all add: sublist_code)

lemma getModifiers_default:
  assumes "getModifiers fieldName field = Inr m"
  shows "sublist '' DEFAULT '' m = (default_defined field \<and> \<not> hasPrimaryKey field)"
proof (cases "hasPrimaryKey field")
  case True
  with assms have "m = '' PRIMARY KEY''" by (simp add: getModifiers_def)
  then show ?thesis using True by (simp add: sublist_code)
next
  case False
  show ?thesis
  proof (cases "default_defined field")
    case True
    with False assms obtain v where
      "m = ((if \<not> truthy (optional (base field)) then '' NOT NULL'' else '''')
             @ (if truthy (unique (base field)) then '' UNIQUE'' else '''')) @ '' DEFAULT '' @ v"
      by (auto simp: getModifiers_def hasDefault_def Let_def split: sum.splits)
    then have "sublist '' DEFAULT '' m" by (simp only: sublist_appendI)
    with True False show ?thesis by simp
  next
    case nd: False
    with False assms have
      "m = (if \<not> truthy (optional (base field)) then '' NOT NULL'' else '''')
             @ (if truthy (unique (base field)) then '' UNIQUE'' else '''')"
      by (auto simp: getModifiers_def hasDefault_def Let_def)
    then have "\<not> sublist '' DEFAULT '' m"
      using plain_modifiers_no_default by simp
    with nd show ?thesis by simp
  qed
qed

text \<open>
  Claim C1, as stated: the column clause of the DDL carries a \<^verbatim>\<open>DEFAULT\<close> modifier
  if and only if the column that \<^verbatim>\<open>columnMapper\<close> builds carries a default. It fails
  for a primary-key field with an explicit default: \<^verbatim>\<open>getModifiers\<close> returns
  \<^verbatim>\<open>' PRIMARY KEY'\<close> alone, while \<^verbatim>\<open>columnMapper\<close> still calls
  \<^verbatim>\<open>.default(...)\<close>.
\<close>

theorem default_presence_counterexample:
  "getModifiers ''id'' pk_text = Inr '' PRIMARY KEY''
   \<and> \<not> sublist '' DEFAULT '' '' PRIMARY KEY''
   \<and> columnMapper (\<lambda>s. None :: unit option) ''id'' pk_text True =
       Inr \<lparr> col_name = ''id'', col_kind = text_col, col_default = Some (DefaultText ''x''),
             col_primaryKey = True, col_autoIncrement = False, col_notNull = True, col_unique = False \<rparr>"
  by (simp add: pk_text_def getModifiers_def sublist_code finish_column_def new_column_def)

text \<open>
  Claim C1, amended: for every field variant and both descriptor modes, whenever both
  builders produce their column, the modifiers of the DDL clause contain
  \<^verbatim>\<open>DEFAULT\<close> if and only if \<^verbatim>\<open>columnMapper\<close> gave the column a default and the
  field is not marked as primary key; that is, if and only if \<^verbatim>\<open>hasDefault\<close> holds
  and the field is not marked as primary key. For a Number primary key without an
  explicit default \<^verbatim>\<open>hasDefault\<close> holds, and neither the clause nor the column has
  a default.
\<close>

theorem default_presence_agrees:
  assumes "getModifiers fieldName field = Inr m"
    and "columnMapper coerce_date fieldName field isJsonSerializable = Inr c"
  shows "(sublist '' DEFAULT '' m \<longleftrightarrow> col_default c \<noteq> None \<and> \<not> hasPrimaryKey field)
       \<and> (sublist '' DEFAULT '' m \<longleftrightarrow> hasDefault field \<and> \<not> hasPrimaryKey field)"
  using getModifiers_default [OF assms(1)] columnMapper_default [OF assms(2)]
  by (auto simp: hasDefault_def)

theorem default_presence_agrees_witness:
  "getModifiers ''views'' views_field = Inr '' DEFAULT 5''
   \<and> columnMapper (\<lambda>s. None :: unit option) ''views'' views_field False =
       Inr \<lparr> col_name = ''views'', col_kind = integer_col,
             col_default = Some (DefaultNumber (Integer (Abs_safe_integer 5))),
             col_primaryKey = False, col_autoIncrement = False, col_notNull = False, col_unique = False \<rparr>
   \<and> (sublist '' DEFAULT '' '' DEFAULT 5'' \<longleftrightarrow>
        col_default \<lparr> col_name = ''views'', col_kind = integer_col,
             col_default = Some (DefaultNumber (Integer (Abs_safe_integer 5))) :: unit default_arg option,
             col_primaryKey = False, col_autoIncrement = False, col_notNull = False, col_unique = False \<rparr> \<noteq> None
        \<and> \<not> hasPrimaryKey views_field)"
proof -
  have m: "getModifiers ''views'' views_field = Inr '' DEFAULT 5''"
    by (simp add: views_field_def getModifiers_def hasDefault_def decimal.simps digit_def
        Abs_safe_integer_inverse)
  have c: "columnMapper (\<lambda>s. None :: unit option) ''views'' views_field False =
       Inr \<lparr> col_name = ''views'', col_kind = integer_col,
             col_default = Some (DefaultNumber (Integer (Abs_safe_integer 5))),
             col_primaryKey = False, col_autoIncrement = False, col_notNull = False, col_unique = False \<rparr>"
    by (simp add: views_field_def finish_column_def new_column_def)
  show ?thesis using default_presence_agrees [OF m c] m c by simp
qed

subsection \<open>The text of a create-table statement\<close>

text \<open>
  Claim C2, as stated: for the collection \<^verbatim>\<open>posts\<close> with the default 0 the statement
  is \<^verbatim>\<open>CREATE TABLE "posts" ("_id" INTEGER PRIMARY KEY, "title" TEXT NOT NULL, "views" INTEGER DEFAULT 0)\<close>.
  The code writes \<^verbatim>\<open>_id\<close> without quotes, the storage types in lower case and
  \<^verbatim>\<open>NOT NULL\<close> for \<^verbatim>\<open>views\<close>, whose \<^verbatim>\<open>optional\<close> is not set; for the default 0
  it writes \<^verbatim>\<open>AUTOINCREMENT\<close>.
\<close>

theorem posts_create_table_counterexample:
  "getCreateTableQuery ''posts'' (posts (Integer (Abs_safe_integer 0))) =
     Inr ''CREATE TABLE \"posts\" (_id INTEGER PRIMARY KEY, \"title\" text NOT NULL, \"views\" integer NOT NULL DEFAULT AUTOINCREMENT)''
   \<and> getCreateTableQuery ''posts'' (posts (Integer (Abs_safe_integer 0))) \<noteq>
     Inr ''CREATE TABLE \"posts\" (\"_id\" INTEGER PRIMARY KEY, \"title\" TEXT NOT NULL, \"views\" INTEGER DEFAULT 0)''"
  by (simp add: getCreateTableQuery_def posts_def getModifiers_def hasDefault_def escapeName_def
      Abs_safe_integer_inverse)

text \<open>
  Claim C2, amended: for the same collection with a default \<open>d\<close> that is an integer
  of the safe range, from \<open>-(2\<^sup>5\<^sup>3 - 1)\<close> to \<open>2\<^sup>5\<^sup>3 - 1\<close>, other than 0, the
  statement is
  \<^verbatim>\<open>CREATE TABLE "posts" (_id INTEGER PRIMARY KEY, "title" text NOT NULL, "views" integer NOT NULL DEFAULT d)\<close>,
  \<open>d\<close> in decimal. (The type \<open>safe_integer\<close> has exactly the integers of that range.)
\<close>

theorem posts_create_table_text:
  "Rep_safe_integer d \<noteq> 0 \<Longrightarrow>
   getCreateTableQuery ''posts'' (posts (Integer d)) =
     Inr (''CREATE TABLE \"posts\" (_id INTEGER PRIMARY KEY, \"title\" text NOT NULL, \"views\" integer NOT NULL DEFAULT ''
            @ number_text (Integer d) @ '')'')"
  by (simp add: getCreateTableQuery_def posts_def getModifiers_def hasDefault_def escapeName_def
      del: number_text.simps)

theorem posts_create_table_text_witness:
  "Rep_safe_integer (Abs_safe_integer 42) \<noteq> 0
   \<and> getCreateTableQuery ''posts'' (posts (Integer (Abs_safe_integer 42))) =
     Inr ''CREATE TABLE \"posts\" (_id INTEGER PRIMARY KEY, \"title\" text NOT NULL, \"views\" integer NOT NULL DEFAULT 42)''
   \<and> Rep_safe_integer (Abs_safe_integer (- 7)) \<noteq> 0
   \<and> getCreateTableQuery ''posts'' (posts (Integer (Abs_safe_integer (- 7)))) =
     Inr ''CREATE TABLE \"posts\" (_id INTEGER PRIMARY KEY, \"title\" text NOT NULL, \"views\" integer NOT NULL DEFAULT -7)''"
proof -
  have r: "Rep_safe_integer (Abs_safe_integer 42) = 42" "Rep_safe_integer (Abs_safe_integer (- 7)) = - 7"
    by (simp_all add: Abs_safe_integer_inverse)
  have t: "number_text (Integer (Abs_safe_integer 42)) = ''42''"
    "number_text (Integer (Abs_safe_integer (- 7))) = ''-7''"
    by (simp_all add: r decimal.simps digit_def)
  have h: "Rep_safe_integer (Abs_safe_integer 42) \<noteq> 0" "Rep_safe_integer (Abs_safe_integer (- 7)) \<noteq> 0"
    by (simp_all add: r)
  show ?thesis
    using posts_create_table_text [OF h(1)] posts_create_table_text [OF h(2)] h
    by (simp add: t del: number_text.simps)
qed

text \<open>The default clause of a Number field for the numbers that are no safe integers.\<close>

lemma number_default_examples:
  "getDefaultValueSql ''n'' (NumberField b (Some NotANumber) p) = Inr ''AUTOINCREMENT''"
  "getDefaultValueSql ''n'' (NumberField b (Some (OtherNumber ''0.5'')) p) = Inr ''0.5''"
  "getDefaultValueSql ''n'' (NumberField b (Some (OtherNumber ''1e+21'')) p) = Inr ''1e+21''"
  "getDefaultValueSql ''n'' (NumberField b None p) = Inr ''AUTOINCREMENT''"
  by simp_all

subsection \<open>The shape of a setup run\<close>

lemma buildSetupQueries_blocks:
  "buildSetupQueries cs = Inr qs \<Longrightarrow>
     qs = concat (map (\<lambda>(n, c). collectionQueries n c) cs)
     \<and> (\<forall>(n, c) \<in> set cs. getCreateTableQuery n c = Inr (createText n c))"
proof (induction cs arbitrary: qs)
  case Nil
  then show ?case by simp
next
  case (Cons a cs)
  obtain n c where a: "a = (n, c)" by (cases a)
  from Cons.prems a obtain t rest where
    t: "getCreateTableQuery n c = Inr t" and rest: "buildSetupQueries cs = Inr rest"
    and qs: "qs = [dropQuery n, sql_raw t] @ getTableIndexQueries n c @ rest"
    by (auto split: sum.splits)
  from t have ct: "createText n c = t" by (simp add: createText_def)
  from Cons.IH [OF rest] qs a t ct show ?case
    by (simp add: collectionQueries_def)
qed

lemma executed_append [simp]: "executed (xs @ ys) = executed xs @ executed ys"
  by (induction xs rule: executed.induct) simp_all

lemma executed_map_DbRun [simp]: "executed (map DbRun qs) = qs"
  by (induction qs) simp_all

lemma runQueries_events:
  "runQueries db qs s = (r, evs, s') \<Longrightarrow>
     evs = map DbRun (take (length evs) qs) \<and> (r = None \<longrightarrow> evs = map DbRun qs)"
proof (induction qs arbitrary: s r evs s')
  case Nil
  then show ?case by simp
next
  case (Cons q qs)
  obtain ro s1 where run: "run db q s = (ro, s1)" by (cases "run db q s") auto
  show ?case
  proof (cases ro)
    case (Some e)
    with run Cons.prems have "evs = [DbRun q]" and "r = Some e" by simp_all
    then show ?thesis by simp
  next
    case None
    obtain r2 evs2 s2 where rec: "runQueries db qs s1 = (r2, evs2, s2)"
      by (cases "runQueries db qs s1") auto
    with None run Cons.prems have eq: "r = r2" "evs = DbRun q # evs2" by simp_all
    from Cons.IH [OF rec] have "evs2 = map DbRun (take (length evs2) qs)"
      and "r2 = None \<longrightarrow> evs2 = map DbRun qs" by simp_all
    with eq show ?thesis by simp
  qed
qed

lemma finish_column_kind [simp]: "col_kind (finish_column b c) = col_kind c"
  by (simp add: finish_column_def Let_def)

lemma with_default_kind [simp]: "col_kind (with_default d mk c) = col_kind c"
  by (cases d) simp_all

lemma new_column_kind [simp]: "col_kind (new_column k n) = k"
  by (simp add: new_column_def)

lemma columnMapper_json_mode:
  "\<exists>c. columnMapper coerce_date fieldName field True = Inr c \<and> col_kind c \<noteq> dateType_col"
  by (cases field) (simp_all add: Let_def)

lemma list_all_replace_value:
  "list_all P xs \<Longrightarrow> P (k, v) \<Longrightarrow> list_all P (replace_value xs k v)"
  by (induction xs) auto

lemma list_all_insert_index:
  "list_all P xs \<Longrightarrow> P (k, v) \<Longrightarrow> list_all P (insert_index xs k v)"
  by (induction xs) auto

lemma no_date_typed_assign:
  "no_date_typed columns \<Longrightarrow> col_kind c \<noteq> dateType_col \<Longrightarrow> no_date_typed (assign columns k c)"
  by (simp add: no_date_typed_def assign_def list_all_replace_value list_all_insert_index)

lemma mapColumns_json_mode:
  "no_date_typed columns \<Longrightarrow>
     \<exists>cols. mapColumns coerce_date True fs columns = Inr cols \<and> no_date_typed cols"
proof (induction fs arbitrary: columns)
  case Nil
  then show ?case by simp
next
  case (Cons a fs)
  obtain n f where a: "a = (n, f)" by (cases a)
  obtain c where c: "columnMapper coerce_date n f True = Inr c" "col_kind c \<noteq> dateType_col"
    using columnMapper_json_mode by blast
  from Cons.IH [OF no_date_typed_assign [OF Cons.prems c(2)]] a c(1) show ?case by simp
qed

lemma collectionToTable_json_mode:
  "\<exists>t. collectionToTable coerce_date name collection True = Inr t \<and> no_date_typed (table_columns t)"
proof -
  let ?init = "if \<not> list_ex (\<lambda>(n, field). hasPrimaryKey field) (coll_fields collection)
             then [(''_id'', (new_column integer_col ''_id'' :: 'a column)\<lparr>col_primaryKey := True\<rparr>)]
             else []"
  have "no_date_typed ?init" by (simp add: no_date_typed_def)
  from mapColumns_json_mode [OF this, of coerce_date "coll_fields collection"]
  obtain cols where "mapColumns coerce_date True (coll_fields collection) ?init = Inr cols"
    "no_date_typed cols" by blast
  then show ?thesis by (simp add: collectionToTable_def Let_def)
qed

lemma attachTables_json_mode: "attachTables coerce_date cs = (None, metaEvents coerce_date cs)"
proof (induction cs)
  case Nil
  then show ?case by simp
next
  case (Cons a cs)
  obtain n c where a: "a = (n, c)" by (cases a)
  obtain t where "collectionToTable coerce_date n c True = Inr t"
    using collectionToTable_json_mode by blast
  with Cons.IH a show ?case by simp
qed

lemma metaEvents_SetMeta:
  "e \<in> set (metaEvents coerce_date cs) \<Longrightarrow>
     \<exists>n c t. e = SetMeta n t \<and> (n, c) \<in> set cs \<and> has_setMeta c
              \<and> collectionToTable coerce_date n c True = Inr t"
proof (induction cs)
  case Nil
  then show ?case by simp
next
  case (Cons a cs)
  obtain n c where a: "a = (n, c)" by (cases a)
  obtain t where t: "collectionToTable coerce_date n c True = Inr t"
    using collectionToTable_json_mode by blast
  from Cons.prems a t have
    "(has_setMeta c \<and> e = SetMeta n t) \<or> e \<in> set (metaEvents coerce_date cs)"
    by (auto split: if_splits)
  then show ?case
  proof
    assume "has_setMeta c \<and> e = SetMeta n t"
    with a t show ?thesis by auto
  next
    assume "e \<in> set (metaEvents coerce_date cs)"
    from Cons.IH [OF this] a show ?thesis by auto
  qed
qed

lemma executed_metaEvents [simp]: "executed (metaEvents coerce_date cs) = []"
proof (induction cs)
  case Nil
  then show ?case by simp
next
  case (Cons a cs)
  obtain n c where a: "a = (n, c)" by (cases a)
  obtain t where t: "collectionToTable coerce_date n c True = Inr t"
    using collectionToTable_json_mode by blast
  from Cons.IH a t show ?case by simp
qed

text \<open>The shape of every run.\<close>

lemma setupDbTables_cases:
  assumes "setupDbTables coerce_date db data cs lg m s = (r, evs, s')"
  obtains
    (generation) e where "buildSetupQueries cs = Inl e" "r = Some e" "evs = []" "s' = s"
  | (rejected) qs e where "buildSetupQueries cs = Inr qs" "r = Some e"
      "evs = map DbRun (take (length evs) qs)"
  | (unseeded) qs where "buildSetupQueries cs = Inr qs" "data = None" "r = None" "evs = map DbRun qs"
  | (seeded) qs procedure s1 s2 where "buildSetupQueries cs = Inr qs" "data = Some procedure"
      "runQueries db qs s = (None, map DbRun qs, s1)"
      "procedure (seed db) db m s1 = (None, s2)" "r = None" "s' = s2"
      "evs = map DbRun qs @ metaEvents coerce_date cs @ [SeedCalled m]"
  | (seed_failed) qs procedure s1 s2 e where "buildSetupQueries cs = Inr qs" "data = Some procedure"
      "runQueries db qs s = (None, map DbRun qs, s1)"
      "procedure (seed db) db m s1 = (Some (Printable e), s2)" "r = None" "s' = s2"
      "evs = map DbRun qs @ metaEvents coerce_date cs
               @ [SeedCalled m, ErrorLogged lg (seedFailureMessage e)]"
  | (handler_failed) qs procedure s1 s2 err where "buildSetupQueries cs = Inr qs"
      "data = Some procedure" "runQueries db qs s = (None, map DbRun qs, s1)"
      "procedure (seed db) db m s1 = (Some (Unprintable err), s2)" "r = Some err" "s' = s2"
      "evs = map DbRun qs @ metaEvents coerce_date cs @ [SeedCalled m]"
proof (cases "buildSetupQueries cs")
  case (Inl e)
  with assms have "r = Some e" "evs = []" "s' = s" by (simp_all add: setupDbTables_def)
  with Inl show ?thesis by (rule generation)
next
  case (Inr qs)
  obtain r1 evs1 s1 where run: "runQueries db qs s = (r1, evs1, s1)"
    by (cases "runQueries db qs s") auto
  from runQueries_events [OF run] have k: "evs1 = map DbRun (take (length evs1) qs)"
    and full: "r1 = None \<longrightarrow> evs1 = map DbRun qs" by simp_all
  show ?thesis
  proof (cases r1)
    case (Some e)
    with assms Inr run have re: "r = Some e" and "evs = evs1" by (simp_all add: setupDbTables_def)
    with k have ev: "evs = map DbRun (take (length evs) qs)" by simp
    show ?thesis by (rule rejected [OF Inr re ev])
  next
    case None
    with full have evs1: "evs1 = map DbRun qs" by simp
    with run None have run': "runQueries db qs s = (None, map DbRun qs, s1)" by simp
    show ?thesis
    proof (cases data)
      case nd: None
      with assms Inr run' have rn: "r = None" and ev: "evs = map DbRun qs"
        by (simp_all add: setupDbTables_def)
      show ?thesis by (rule unseeded [OF Inr nd rn ev])
    next
      case sd: (Some procedure)
      obtain ro s2 where p: "procedure (seed db) db m s1 = (ro, s2)"
        by (cases "procedure (seed db) db m s1") auto
      show ?thesis
      proof (cases ro)
        case pn: None
        with p have p': "procedure (seed db) db m s1 = (None, s2)" by simp
        with assms Inr run' sd have rn: "r = None" and st: "s' = s2"
          and ev: "evs = map DbRun qs @ metaEvents coerce_date cs @ [SeedCalled m]"
          by (simp_all add: setupDbTables_def attachTables_json_mode)
        show ?thesis by (rule seeded [OF Inr sd run' p' rn st ev])
      next
        case (Some th)
        show ?thesis
        proof (cases th)
          case (Printable e)
          with p Some have p': "procedure (seed db) db m s1 = (Some (Printable e), s2)" by simp
          with assms Inr run' sd have rn: "r = None" and st: "s' = s2"
            and ev: "evs = map DbRun qs @ metaEvents coerce_date cs
                       @ [SeedCalled m, ErrorLogged lg (seedFailureMessage e)]"
            by (simp_all add: setupDbTables_def attachTables_json_mode)
          show ?thesis by (rule seed_failed [OF Inr sd run' p' rn st ev])
        next
          case (Unprintable err)
          with p Some have p': "procedure (seed db) db m s1 = (Some (Unprintable err), s2)" by simp
          with assms Inr run' sd have rn: "r = Some err" and st: "s' = s2"
            and ev: "evs = map DbRun qs @ metaEvents coerce_date cs @ [SeedCalled m]"
            by (simp_all add: setupDbTables_def attachTables_json_mode)
          show ?thesis by (rule handler_failed [OF Inr sd run' p' rn st ev])
        qed
      qed
    qed
  qed
qed

subsection \<open>Write guard\<close>

lemma guarded_present:
  "map_of collections (getTableName T) = Some collection \<Longrightarrow>
   guarded collections op T s =
     (if writable collection then op T s
      else (Inl (ReadOnlyError (''The ['' @ getTableName T @ ''] collection is read-only.'')), s))"
  by (simp add: guarded_def checkIfModificationIsAllowed_def lookup_collection_def)

lemma guarded_absent:
  "map_of collections (getTableName T) = None \<Longrightarrow>
   guarded collections op T s =
     (if getTableName T \<in> set object_prototype_names
      then (Inl (ReadOnlyError (''The ['' @ getTableName T @ ''] collection is read-only.'')), s)
      else (Inl TypeError, s))"
  by (simp add: guarded_def checkIfModificationIsAllowed_def lookup_collection_def)

text \<open>
  Claim C6: on a table whose collection is in the collection map, each of insert,
  update and delete of the guarded handle gives the read-only error and leaves the state
  of the underlying client as it was when the collection is not writable, and is the
  underlying entry point (same result, same next state) when it is writable. The read
  entry point of the guarded handle is the underlying one, and with \<open>seeding\<close> true the
  handle is the underlying handle itself.
\<close>

theorem write_guard:
  assumes "map_of collections (getTableName T) = Some collection"
  shows "(let g = createLocalDatabaseClient collections db False;
              violation = ReadOnlyError (''The ['' @ getTableName T @ ''] collection is read-only.'')
          in (if writable collection
              then db_insert g T s = db_insert db T s
                 \<and> db_update g T s = db_update db T s
                 \<and> db_delete g T s = db_delete db T s
              else db_insert g T s = (Inl violation, s)
                 \<and> db_update g T s = (Inl violation, s)
                 \<and> db_delete g T s = (Inl violation, s))
             \<and> db_select g = db_select db)
         \<and> createLocalDatabaseClient collections db True = db"
  using assms by (simp add: createLocalDatabaseClient_def guarded_present Let_def)

theorem write_guard_witness:
  "map_of guarded_collections (getTableName (table_named ''authors'')) =
     Some \<lparr> coll_fields = [], indexes = None, writable = False, has_setMeta = False \<rparr>
   \<and> db_insert (createLocalDatabaseClient guarded_collections counting_db False) (table_named ''authors'') 0
       = (Inl (ReadOnlyError ''The [authors] collection is read-only.''), 0)
   \<and> db_insert counting_db (table_named ''authors'') 0 = (Inr ''inserted'', 1)
   \<and> map_of guarded_collections (getTableName (table_named ''posts'')) =
     Some \<lparr> coll_fields = [], indexes = None, writable = True, has_setMeta = False \<rparr>
   \<and> db_delete (createLocalDatabaseClient guarded_collections counting_db False) (table_named ''posts'') 0
       = (Inr ''deleted'', 1)"
proof -
  have h: "map_of guarded_collections (getTableName (table_named ''authors'')) =
     Some \<lparr> coll_fields = [], indexes = None, writable = False, has_setMeta = False \<rparr>"
    by (simp add: guarded_collections_def getTableName_def table_named_def)
  have h': "map_of guarded_collections (getTableName (table_named ''posts'')) =
     Some \<lparr> coll_fields = [], indexes = None, writable = True, has_setMeta = False \<rparr>"
    by (simp add: guarded_collections_def getTableName_def table_named_def)
  have n: "getTableName (table_named ''authors'') = ''authors''"
    by (simp add: getTableName_def table_named_def)
  have a: "db_insert (createLocalDatabaseClient guarded_collections counting_db False) (table_named ''authors'') 0
       = (Inl (ReadOnlyError ''The [authors] collection is read-only.''), 0)"
    using write_guard [OF h, of counting_db 0] by (simp add: Let_def n)
  have p: "db_delete (createLocalDatabaseClient guarded_collections counting_db False) (table_named ''posts'') 0
       = (Inr ''deleted'', 1)"
    using write_guard [OF h', of counting_db 0] by (simp add: Let_def counting_db_def)
  show ?thesis using h h' a p by (simp add: counting_db_def)
qed

text \<open>
  Claim C9, as stated: on every table whose name is no key of the collection map, each
  of insert, update and delete of the guarded handle fails by reading a property of
  \<^verbatim>\<open>undefined\<close>, and does not raise the read-only error. For a table named
  \<^verbatim>\<open>toString\<close> the lookup finds the function inherited from \<^verbatim>\<open>Object.prototype\<close>,
  which has no \<^verbatim>\<open>writable\<close> property, and the guard raises the read-only error.
\<close>

theorem guard_missing_collection_counterexample:
  "getTableName (table_named ''toString'') \<notin> fst ` set guarded_collections
   \<and> db_insert (createLocalDatabaseClient guarded_collections counting_db False) (table_named ''toString'') 0
       = (Inl (ReadOnlyError ''The [toString] collection is read-only.''), 0)"
  by (simp add: guarded_collections_def getTableName_def table_named_def createLocalDatabaseClient_def
      guarded_def checkIfModificationIsAllowed_def lookup_collection_def object_prototype_names_def)

text \<open>
  Claim C9, amended: on a table whose name is no key of the collection map, each of
  insert, update and delete of the guarded handle fails without reaching the underlying
  client (its state is as it was): with the error of reading a property of
  \<^verbatim>\<open>undefined\<close>, and not the read-only error, when the name is no property name of
  \<^verbatim>\<open>Object.prototype\<close>; with the read-only error when it is one.
\<close>

theorem guard_missing_collection:
  assumes "getTableName T \<notin> fst ` set collections"
  shows "(let g = createLocalDatabaseClient collections db False;
              failure =
                (if getTableName T \<in> set object_prototype_names
                 then ReadOnlyError (''The ['' @ getTableName T @ ''] collection is read-only.'')
                 else TypeError)
          in db_insert g T s = (Inl failure, s)
           \<and> db_update g T s = (Inl failure, s)
           \<and> db_delete g T s = (Inl failure, s))"
proof -
  from assms have "map_of collections (getTableName T) = None"
    by (simp add: map_of_eq_None_iff)
  then show ?thesis
    by (simp add: createLocalDatabaseClient_def guarded_absent Let_def)
qed

theorem guard_missing_collection_witness:
  "getTableName (table_named ''drafts'') \<notin> fst ` set guarded_collections
   \<and> db_insert (createLocalDatabaseClient guarded_collections counting_db False) (table_named ''drafts'') 0
       = (Inl TypeError, 0)
   \<and> db_update (createLocalDatabaseClient guarded_collections counting_db False) (table_named ''drafts'') 0
       = (Inl TypeError, 0)
   \<and> db_delete (createLocalDatabaseClient guarded_collections counting_db False) (table_named ''drafts'') 0
       = (Inl TypeError, 0)
   \<and> getTableName (table_named ''constructor'') \<notin> fst ` set guarded_collections
   \<and> db_delete (createLocalDatabaseClient guarded_collections counting_db False) (table_named ''constructor'') 0
       = (Inl (ReadOnlyError ''The [constructor] collection is read-only.''), 0)"
proof -
  have h: "getTableName (table_named ''drafts'') \<notin> fst ` set guarded_collections"
    by (simp add: guarded_collections_def getTableName_def table_named_def)
  have h': "getTableName (table_named ''constructor'') \<notin> fst ` set guarded_collections"
    by (simp add: guarded_collections_def getTableName_def table_named_def)
  have n: "getTableName (table_named ''drafts'') \<notin> set object_prototype_names"
    "''constructor'' \<in> set object_prototype_names"
    "getTableName (table_named ''constructor'') = ''constructor''"
    by (simp_all add: getTableName_def table_named_def object_prototype_names_def)
  show ?thesis
    using guard_missing_collection [OF h, of counting_db 0]
      guard_missing_collection [OF h', of counting_db 0] h h'
    by (simp add: Let_def n)
qed

subsection \<open>The order of the statements of a run\<close>

lemma prefix_take: "prefix (take k xs) xs"
  by (metis append_take_drop_id prefixI)

lemma two_collections_queries:
  "buildSetupQueries two_collections =
     Inr [sql_raw ''DROP TABLE IF EXISTS a'',
          sql_raw ''CREATE TABLE \"a\" (_id INTEGER PRIMARY KEY, \"x\" text)'',
          sql_raw ''CREATE INDEX \"idx\" ON \"a\" (\"x\")'',
          sql_raw ''DROP TABLE IF EXISTS b'',
          sql_raw ''CREATE TABLE \"b\" (_id INTEGER PRIMARY KEY, \"y\" text)'']"
  by (simp add: two_collections_def getCreateTableQuery_def getModifiers_def hasDefault_def
      escapeName_def dropQuery_def getTableIndexQueries_def indexes_or_empty_def indexQuery_def)

lemma two_collections_run:
  "setupDbTables (\<lambda>s. None) accepting_db None two_collections False dev [] =
     (None,
      [DbRun (sql_raw ''DROP TABLE IF EXISTS a''),
       DbRun (sql_raw ''CREATE TABLE \"a\" (_id INTEGER PRIMARY KEY, \"x\" text)''),
       DbRun (sql_raw ''CREATE INDEX \"idx\" ON \"a\" (\"x\")''),
       DbRun (sql_raw ''DROP TABLE IF EXISTS b''),
       DbRun (sql_raw ''CREATE TABLE \"b\" (_id INTEGER PRIMARY KEY, \"y\" text)'')],
      [sql_raw ''DROP TABLE IF EXISTS a'',
       sql_raw ''CREATE TABLE \"a\" (_id INTEGER PRIMARY KEY, \"x\" text)'',
       sql_raw ''CREATE INDEX \"idx\" ON \"a\" (\"x\")'',
       sql_raw ''DROP TABLE IF EXISTS b'',
       sql_raw ''CREATE TABLE \"b\" (_id INTEGER PRIMARY KEY, \"y\" text)''])"
  by (simp add: setupDbTables_def two_collections_queries accepting_db_def)

text \<open>
  Claim C4, as stated: every index statement is executed only after the create-table
  statements of all collections of the run. With two collections of which the first has
  an index, the index statement of the first is executed before the table of the second
  is created.
\<close>

theorem setup_statement_order_counterexample:
  "executed (fst (snd (setupDbTables (\<lambda>s. None) accepting_db None two_collections False dev []))) =
     [sql_raw ''DROP TABLE IF EXISTS a'',
      sql_raw ''CREATE TABLE \"a\" (_id INTEGER PRIMARY KEY, \"x\" text)'',
      sql_raw ''CREATE INDEX \"idx\" ON \"a\" (\"x\")'',
      sql_raw ''DROP TABLE IF EXISTS b'',
      sql_raw ''CREATE TABLE \"b\" (_id INTEGER PRIMARY KEY, \"y\" text)'']
   \<and> index_before_create
        (executed (fst (snd (setupDbTables (\<lambda>s. None) accepting_db None two_collections False dev []))))"
  by (simp add: two_collections_run)

text \<open>
  Claim C4, amended: in every run the statements are executed collection by collection,
  in the order of the collection mapping: for each collection its drop statement, its
  create-table statement, then its index statements. What a run executes is a prefix of
  that sequence, and all of it when the run returns normally. So an index statement is
  executed after the table of its own collection and of the collections before it is
  created, and before those of the collections after it.
\<close>

theorem setup_statement_order:
  assumes "setupDbTables coerce_date db data cs lg m s = (r, evs, s')"
  shows "prefix (executed evs) (concat (map (\<lambda>(n, c). collectionQueries n c) cs))
       \<and> (r = None \<longrightarrow> executed evs = concat (map (\<lambda>(n, c). collectionQueries n c) cs))"
  using assms
proof (cases rule: setupDbTables_cases)
  case (generation e)
  then show ?thesis by simp
next
  case (rejected qs e)
  from buildSetupQueries_blocks [OF rejected(1)]
  have qs: "qs = concat (map (\<lambda>(n, c). collectionQueries n c) cs)" by simp
  from rejected(3) have "executed evs = take (length evs) qs"
    by (metis executed_map_DbRun)
  with qs rejected(2) show ?thesis using prefix_take [of "length evs" qs] by simp
next
  case (unseeded qs)
  from buildSetupQueries_blocks [OF unseeded(1)]
  have "qs = concat (map (\<lambda>(n, c). collectionQueries n c) cs)" by simp
  with unseeded show ?thesis by simp
next
  case (seeded qs procedure s1 s2)
  from buildSetupQueries_blocks [OF seeded(1)]
  have "qs = concat (map (\<lambda>(n, c). collectionQueries n c) cs)" by simp
  with seeded show ?thesis by simp
next
  case (seed_failed qs procedure s1 s2 e)
  from buildSetupQueries_blocks [OF seed_failed(1)]
  have "qs = concat (map (\<lambda>(n, c). collectionQueries n c) cs)" by simp
  with seed_failed show ?thesis by simp
next
  case (handler_failed qs procedure s1 s2 err)
  from buildSetupQueries_blocks [OF handler_failed(1)]
  have "qs = concat (map (\<lambda>(n, c). collectionQueries n c) cs)" by simp
  with handler_failed show ?thesis by simp
qed

theorem setup_statement_order_witness:
  "setupDbTables (\<lambda>s. None) accepting_db None two_collections False dev [] =
     (None,
      [DbRun (sql_raw ''DROP TABLE IF EXISTS a''),
       DbRun (sql_raw ''CREATE TABLE \"a\" (_id INTEGER PRIMARY KEY, \"x\" text)''),
       DbRun (sql_raw ''CREATE INDEX \"idx\" ON \"a\" (\"x\")''),
       DbRun (sql_raw ''DROP TABLE IF EXISTS b''),
       DbRun (sql_raw ''CREATE TABLE \"b\" (_id INTEGER PRIMARY KEY, \"y\" text)'')],
      [sql_raw ''DROP TABLE IF EXISTS a'',
       sql_raw ''CREATE TABLE \"a\" (_id INTEGER PRIMARY KEY, \"x\" text)'',
       sql_raw ''CREATE INDEX \"idx\" ON \"a\" (\"x\")'',
       sql_raw ''DROP TABLE IF EXISTS b'',
       sql_raw ''CREATE TABLE \"b\" (_id INTEGER PRIMARY KEY, \"y\" text)''])
   \<and> concat (map (\<lambda>(n, c). collectionQueries n c) two_collections) =
      [sql_raw ''DROP TABLE IF EXISTS a'',
       sql_raw ''CREATE TABLE \"a\" (_id INTEGER PRIMARY KEY, \"x\" text)'',
       sql_raw ''CREATE INDEX \"idx\" ON \"a\" (\"x\")'',
       sql_raw ''DROP TABLE IF EXISTS b'',
       sql_raw ''CREATE TABLE \"b\" (_id INTEGER PRIMARY KEY, \"y\" text)'']"
  using setup_statement_order [OF two_collections_run] two_collections_run by simp

subsection \<open>A default that cannot be serialized\<close>














subsection \<open>Runs with a seed procedure\<close>

lemma events_queries:
  "buildSetupQueries [(''events'', events_collection)] =
     Inr [sql_raw ''DROP TABLE IF EXISTS events'',
          sql_raw ''CREATE TABLE \"events\" (_id INTEGER PRIMARY KEY, \"at\" text)'']"
  by (simp add: events_collection_def getCreateTableQuery_def getModifiers_def hasDefault_def
      escapeName_def dropQuery_def getTableIndexQueries_def indexes_or_empty_def)

lemma events_table_json:
  "collectionToTable (\<lambda>s. None) ''events'' events_collection True = Inr (events_table text_col)"
  by (simp add: events_collection_def events_table_def collectionToTable_def new_column_def
      finish_column_def indexes_or_empty_def assign_def is_array_index_def)

lemma events_table_native:
  "collectionToTable (\<lambda>s. None) ''events'' events_collection False = Inr (events_table dateType_col)"
  by (simp add: events_collection_def events_table_def collectionToTable_def new_column_def
      finish_column_def indexes_or_empty_def assign_def is_array_index_def)

lemma events_run:
  "runQueries accepting_db
     [sql_raw ''DROP TABLE IF EXISTS events'',
      sql_raw ''CREATE TABLE \"events\" (_id INTEGER PRIMARY KEY, \"at\" text)''] [] =
     (None,
      map DbRun [sql_raw ''DROP TABLE IF EXISTS events'',
       sql_raw ''CREATE TABLE \"events\" (_id INTEGER PRIMARY KEY, \"at\" text)''],
      [sql_raw ''DROP TABLE IF EXISTS events'',
       sql_raw ''CREATE TABLE \"events\" (_id INTEGER PRIMARY KEY, \"at\" text)''])"
  by (simp add: accepting_db_def)

lemma events_metaEvents:
  "metaEvents (\<lambda>s. None) [(''events'', events_collection)] = [SetMeta ''events'' (events_table text_col)]"
  by (simp add: events_table_json) (simp add: events_collection_def)

lemma events_seeded_run:
  "setupDbTables (\<lambda>s. None) accepting_db (Some quiet_seed) [(''events'', events_collection)] False dev [] =
     (None,
      [DbRun (sql_raw ''DROP TABLE IF EXISTS events''),
       DbRun (sql_raw ''CREATE TABLE \"events\" (_id INTEGER PRIMARY KEY, \"at\" text)''),
       SetMeta ''events'' (events_table text_col),
       SeedCalled dev],
      [sql_raw ''DROP TABLE IF EXISTS events'',
       sql_raw ''CREATE TABLE \"events\" (_id INTEGER PRIMARY KEY, \"at\" text)''])"
  unfolding setupDbTables_def events_queries
  by (simp add: events_run attachTables_json_mode events_metaEvents quiet_seed_def
      del: runQueries.simps metaEvents.simps)

lemma no_date_typed_metaEvents:
  "SetMeta n t \<in> set (metaEvents coerce_date cs) \<Longrightarrow> no_date_typed (table_columns t)"
proof -
  assume "SetMeta n t \<in> set (metaEvents coerce_date cs)"
  from metaEvents_SetMeta [OF this] obtain c where c: "collectionToTable coerce_date n c True = Inr t"
    by auto
  from collectionToTable_json_mode [of coerce_date n c] c show ?thesis by auto
qed




text \<open>
  Claim C3, as stated: the table handed to \<^verbatim>\<open>_setMeta\<close> before the seed procedure
  runs is the native-mode table, with date-typed columns for Date fields. For a
  collection with a Date field the table handed over has a plain text column, and
  differs from the native-mode table of the collection.
\<close>

theorem seed_descriptor_mode_counterexample:
  "fst (snd (setupDbTables (\<lambda>s. None) accepting_db (Some quiet_seed) [(''events'', events_collection)] False dev [])) =
      [DbRun (sql_raw ''DROP TABLE IF EXISTS events''),
       DbRun (sql_raw ''CREATE TABLE \"events\" (_id INTEGER PRIMARY KEY, \"at\" text)''),
       SetMeta ''events'' (events_table text_col),
       SeedCalled dev]
   \<and> collectionToTable (\<lambda>s. None) ''events'' events_collection False = Inr (events_table dateType_col)
   \<and> events_table text_col \<noteq> events_table dateType_col"
  by (simp add: events_seeded_run events_table_native) (simp add: events_table_def)

text \<open>
  Claim C3, amended: every table handed to a collection's \<^verbatim>\<open>_setMeta\<close> in a run is
  the table that \<^verbatim>\<open>collectionToTable\<close> builds for that collection with
  \<open>isJsonSerializable\<close> true, the default of the parameter: it has no date-typed
  column. The tables are handed over after all statements of the run and before the
  seed procedure is called.
\<close>

theorem seed_descriptor_mode:
  assumes "setupDbTables coerce_date db data cs lg m s = (r, evs, s')"
    and "SetMeta n t \<in> set evs"
  shows "(\<exists>c. (n, c) \<in> set cs \<and> has_setMeta c \<and> collectionToTable coerce_date n c True = Inr t)
       \<and> no_date_typed (table_columns t)
       \<and> (\<exists>post. evs = map DbRun (executed evs) @ metaEvents coerce_date cs @ SeedCalled m # post)"
  using assms(1)
proof (cases rule: setupDbTables_cases)
  case (generation e)
  with assms(2) show ?thesis by simp
next
  case (rejected qs e)
  with assms(2) have "SetMeta n t \<in> set (map DbRun (take (length evs) qs))" by simp
  then show ?thesis by auto
next
  case (unseeded qs)
  with assms(2) show ?thesis by auto
next
  case (seeded qs procedure s1 s2)
  with assms(2) have mem: "SetMeta n t \<in> set (metaEvents coerce_date cs)" by auto
  from metaEvents_SetMeta [OF mem] have
    "\<exists>c. (n, c) \<in> set cs \<and> has_setMeta c \<and> collectionToTable coerce_date n c True = Inr t"
    by auto
  moreover from seeded(7) have "executed evs = qs" by simp
  with seeded(7) have "evs = map DbRun (executed evs) @ metaEvents coerce_date cs @ SeedCalled m # []"
    by simp
  ultimately show ?thesis using no_date_typed_metaEvents [OF mem] by blast
next
  case (seed_failed qs procedure s1 s2 e)
  with assms(2) have mem: "SetMeta n t \<in> set (metaEvents coerce_date cs)" by auto
  from metaEvents_SetMeta [OF mem] have
    "\<exists>c. (n, c) \<in> set cs \<and> has_setMeta c \<and> collectionToTable coerce_date n c True = Inr t"
    by auto
  moreover from seed_failed(7) have "executed evs = qs" by simp
  with seed_failed(7) have "evs = map DbRun (executed evs) @ metaEvents coerce_date cs
      @ SeedCalled m # [ErrorLogged lg (seedFailureMessage e)]"
    by simp
  ultimately show ?thesis using no_date_typed_metaEvents [OF mem] by blast
next
  case (handler_failed qs procedure s1 s2 err)
  with assms(2) have mem: "SetMeta n t \<in> set (metaEvents coerce_date cs)" by auto
  from metaEvents_SetMeta [OF mem] have
    "\<exists>c. (n, c) \<in> set cs \<and> has_setMeta c \<and> collectionToTable coerce_date n c True = Inr t"
    by auto
  moreover from handler_failed(7) have "executed evs = qs" by simp
  with handler_failed(7) have "evs = map DbRun (executed evs) @ metaEvents coerce_date cs @ SeedCalled m # []"
    by simp
  ultimately show ?thesis using no_date_typed_metaEvents [OF mem] by blast
qed

theorem seed_descriptor_mode_witness:
  "setupDbTables (\<lambda>s. None) accepting_db (Some quiet_seed) [(''events'', events_collection)] False dev [] =
     (None,
      [DbRun (sql_raw ''DROP TABLE IF EXISTS events''),
       DbRun (sql_raw ''CREATE TABLE \"events\" (_id INTEGER PRIMARY KEY, \"at\" text)''),
       SetMeta ''events'' (events_table text_col),
       SeedCalled dev],
      [sql_raw ''DROP TABLE IF EXISTS events'',
       sql_raw ''CREATE TABLE \"events\" (_id INTEGER PRIMARY KEY, \"at\" text)''])
   \<and> collectionToTable (\<lambda>s. None) ''events'' events_collection True = Inr (events_table text_col)
   \<and> no_date_typed (table_columns (events_table text_col))"
proof -
  have mem: "SetMeta ''events'' (events_table text_col) \<in> set
      [DbRun (sql_raw ''DROP TABLE IF EXISTS events''),
       DbRun (sql_raw ''CREATE TABLE \"events\" (_id INTEGER PRIMARY KEY, \"at\" text)''),
       SetMeta ''events'' (events_table text_col),
       SeedCalled dev]" by simp
  from seed_descriptor_mode [OF events_seeded_run mem]
  have "no_date_typed (table_columns (events_table text_col))" by simp
  then show ?thesis using events_seeded_run events_table_json by simp
qed

subsection \<open>Escaping of names\<close>

lemma colQueries_of_clauses:
  "colQueries_of fs = Inr qs \<Longrightarrow>
     list_all2 (\<lambda>(n, f) q. prefix (escapeName n @ '' '') q) fs qs"
proof (induction fs arbitrary: qs)
  case Nil
  then show ?case by simp
next
  case (Cons a fs)
  obtain n f where a: "a = (n, f)" by (cases a)
  from Cons.prems a obtain m rest where
    "colQueries_of fs = Inr rest"
    "qs = (escapeName n @ '' '' @ schemaTypeToSqlType (field_type f) @ m) # rest"
    by (auto split: sum.splits)
  with Cons.IH [of rest] a show ?case by simp
qed

lemma buildSetupQueries_member:
  "buildSetupQueries cs = Inr qs \<Longrightarrow> (name, c) \<in> set cs \<Longrightarrow>
     getCreateTableQuery name c = Inr (createText name c) \<and> set (collectionQueries name c) \<subseteq> set qs"
proof -
  assume b: "buildSetupQueries cs = Inr qs" and m: "(name, c) \<in> set cs"
  from buildSetupQueries_blocks [OF b] have
    qs: "qs = concat (map (\<lambda>(n, c). collectionQueries n c) cs)"
    and ok: "\<forall>(n, c) \<in> set cs. getCreateTableQuery n c = Inr (createText n c)" by simp_all
  from ok m have "getCreateTableQuery name c = Inr (createText name c)" by auto
  moreover from qs m have "set (collectionQueries name c) \<subseteq> set qs" by auto
  ultimately show ?thesis by simp
qed

lemma spaced_queries:
  "buildSetupQueries spaced_collections =
     Inr [sql_raw ''DROP TABLE IF EXISTS my posts'',
          sql_raw ''CREATE TABLE \"my posts\" (\"the title\" text PRIMARY KEY)'',
          sql_raw ''CREATE UNIQUE INDEX \"by title\" ON \"my posts\" (\"the title\")'']"
  by (simp add: spaced_collections_def getCreateTableQuery_def getModifiers_def hasDefault_def
      escapeName_def dropQuery_def getTableIndexQueries_def indexes_or_empty_def indexQuery_def)

text \<open>
  Claim C10, as stated: the drop statement has the raw collection name, whereas the
  create-table and index statements escape every table, column and index name. The
  column \<^verbatim>\<open>_id\<close>, which a table without a declared primary key gets, is written
  as it is: its escaped name \<^verbatim>\<open>"_id"\<close> does not occur in the statement.
\<close>

theorem drop_is_raw_create_is_escaped_counterexample:
  "getCreateTableQuery ''t'' empty_collection = Inr ''CREATE TABLE \"t\" (_id INTEGER PRIMARY KEY)''
   \<and> escapeName ''_id'' = ''\"_id\"''
   \<and> \<not> sublist (escapeName ''_id'') ''CREATE TABLE \"t\" (_id INTEGER PRIMARY KEY)''"
  by (simp add: getCreateTableQuery_def empty_collection_def escapeName_def sublist_code)

text \<open>
  Claim C10, amended: for every collection of a run whose text generation succeeds, the
  drop statement is \<^verbatim>\<open>DROP TABLE IF EXISTS\<close> followed by the raw collection name;
  the create-table statement has the escaped collection name and one clause per
  declared field that starts with the escaped field name, after the literal clause
  \<^verbatim>\<open>_id INTEGER PRIMARY KEY\<close> when no field is a primary key; every index statement
  has the escaped index name, the escaped collection name and the escaped column names.
  So a collection name that needs quoting is quoted in the create-table and index
  statements and not in the drop statement.
\<close>

theorem drop_is_raw_create_is_escaped:
  assumes "buildSetupQueries cs = Inr qs" and "(name, c) \<in> set cs"
  shows "sql_raw (''DROP TABLE IF EXISTS '' @ name) \<in> set qs
       \<and> (\<exists>clauses.
             sql_raw (''CREATE TABLE '' @ escapeName name @ '' (''
                       @ join '', '' ((if list_ex (\<lambda>(n, f). hasPrimaryKey f) (coll_fields c) then []
                                       else [''_id INTEGER PRIMARY KEY'']) @ clauses)
                       @ '')'') \<in> set qs
             \<and> list_all2 (\<lambda>(n, f) clause. prefix (escapeName n @ '' '') clause) (coll_fields c) clauses)
       \<and> list_all (\<lambda>(indexName, indexProps).
             sql_raw (''CREATE '' @ (if truthy (idx_unique indexProps) then ''UNIQUE '' else '''')
                       @ ''INDEX '' @ escapeName indexName @ '' ON '' @ escapeName name @ '' (''
                       @ join '', '' (map escapeName (onColNames (on indexProps))) @ '')'') \<in> set qs)
           (indexes_or_empty c)"
proof -
  from buildSetupQueries_member [OF assms] have
    ct: "getCreateTableQuery name c = Inr (createText name c)"
    and sub: "set (collectionQueries name c) \<subseteq> set qs" by simp_all
  from sub have d: "sql_raw (''DROP TABLE IF EXISTS '' @ name) \<in> set qs"
    by (simp add: collectionQueries_def dropQuery_def)
  from sub have cr: "sql_raw (createText name c) \<in> set qs"
    by (simp add: collectionQueries_def)
  from ct obtain clauses where cl: "colQueries_of (coll_fields c) = Inr clauses"
    and ctext: "createText name c = ''CREATE TABLE '' @ escapeName name @ '' (''
                @ join '', '' ((if find (\<lambda>(n, f). hasPrimaryKey f) (coll_fields c) = None
                                then [''_id INTEGER PRIMARY KEY''] else []) @ clauses) @ '')''"
    by (auto simp: getCreateTableQuery_def Let_def split: sum.splits)
  have fe: "(find (\<lambda>(n, f). hasPrimaryKey f) (coll_fields c) = None)
       = (\<not> list_ex (\<lambda>(n, f). hasPrimaryKey f) (coll_fields c))"
    by (auto simp: find_None_iff list_ex_iff)
  from ctext fe have ctext': "createText name c = ''CREATE TABLE '' @ escapeName name @ '' (''
                @ join '', '' ((if list_ex (\<lambda>(n, f). hasPrimaryKey f) (coll_fields c) then []
                                else [''_id INTEGER PRIMARY KEY'']) @ clauses) @ '')''"
    by simp
  from cr ctext' colQueries_of_clauses [OF cl] have c2: "\<exists>clauses.
             sql_raw (''CREATE TABLE '' @ escapeName name @ '' (''
                       @ join '', '' ((if list_ex (\<lambda>(n, f). hasPrimaryKey f) (coll_fields c) then []
                                       else [''_id INTEGER PRIMARY KEY'']) @ clauses)
                       @ '')'') \<in> set qs
             \<and> list_all2 (\<lambda>(n, f) clause. prefix (escapeName n @ '' '') clause) (coll_fields c) clauses"
    by metis
  from sub have "set (getTableIndexQueries name c) \<subseteq> set qs"
    by (simp add: collectionQueries_def)
  then have ix: "list_all (\<lambda>(indexName, indexProps).
             sql_raw (''CREATE '' @ (if truthy (idx_unique indexProps) then ''UNIQUE '' else '''')
                       @ ''INDEX '' @ escapeName indexName @ '' ON '' @ escapeName name @ '' (''
                       @ join '', '' (map escapeName (onColNames (on indexProps))) @ '')'') \<in> set qs)
           (indexes_or_empty c)"
    by (auto simp: getTableIndexQueries_def indexQuery_def Let_def list_all_iff)
  from d c2 ix show ?thesis by blast
qed

theorem drop_is_raw_create_is_escaped_witness:
  "buildSetupQueries spaced_collections =
     Inr [sql_raw ''DROP TABLE IF EXISTS my posts'',
          sql_raw ''CREATE TABLE \"my posts\" (\"the title\" text PRIMARY KEY)'',
          sql_raw ''CREATE UNIQUE INDEX \"by title\" ON \"my posts\" (\"the title\")'']
   \<and> (''my posts'',
       \<lparr> coll_fields = [(''the title'', TextField \<lparr>optional = Some True, unique = None\<rparr> None (Some True))],
         indexes = Some [(''by title'', \<lparr> on = OnNames [''the title''], idx_unique = Some True \<rparr>)],
         writable = True, has_setMeta = False \<rparr>) \<in> set spaced_collections
   \<and> sql_raw ''DROP TABLE IF EXISTS my posts'' \<in> set
        [sql_raw ''DROP TABLE IF EXISTS my posts'',
          sql_raw ''CREATE TABLE \"my posts\" (\"the title\" text PRIMARY KEY)'',
          sql_raw ''CREATE UNIQUE INDEX \"by title\" ON \"my posts\" (\"the title\")'']"
proof -
  have m: "(''my posts'',
       \<lparr> coll_fields = [(''the title'', TextField \<lparr>optional = Some True, unique = None\<rparr> None (Some True))],
         indexes = Some [(''by title'', \<lparr> on = OnNames [''the title''], idx_unique = Some True \<rparr>)],
         writable = True, has_setMeta = False \<rparr>) \<in> set spaced_collections"
    by (simp add: spaced_collections_def)
  from drop_is_raw_create_is_escaped [OF spaced_queries m]
  have "sql_raw (''DROP TABLE IF EXISTS '' @ ''my posts'') \<in> set
        [sql_raw ''DROP TABLE IF EXISTS my posts'',
          sql_raw ''CREATE TABLE \"my posts\" (\"the title\" text PRIMARY KEY)'',
          sql_raw ''CREATE UNIQUE INDEX \"by title\" ON \"my posts\" (\"the title\")'']"
    by (rule conjunct1)
  with spaced_queries m show ?thesis by simp
qed

subsection \<open>Indexes on columns that do not exist\<close>





text \<open>
  The order of the columns of a table: a field whose name is an array index comes
  before the column \<^verbatim>\<open>_id\<close>, any other field after it.
\<close>

lemma assign_order_examples:
  "assign [(''_id'', x), (''b'', y)] ''1'' z = [(''1'', z), (''_id'', x), (''b'', y)]"
  "assign [(''2'', x), (''_id'', y)] ''10'' z = [(''2'', x), (''10'', z), (''_id'', y)]"
  "assign [(''2'', x), (''_id'', y)] ''1'' z = [(''1'', z), (''2'', x), (''_id'', y)]"
  "assign [(''2'', x), (''_id'', y)] ''01'' z = [(''2'', x), (''_id'', y), (''01'', z)]"
  "assign [(''2'', x), (''_id'', y)] ''_id'' z = [(''2'', x), (''_id'', z)]"
  by (simp_all add: assign_def is_array_index_def digits_value_def)







end
